theory Spec2Isabelle
  imports Complex_Main
begin

section \<open>JavaScript values used by the greased line builder\<close>

text \<open>
  The builder works on JavaScript numbers and arrays. Numbers are modelled as exact
  rationals (\<open>rat\<close>); the point count of a line is a number as well, since the builder
  computes it as a sum of quotients \<open>points.length / 3\<close>. The quotient of a division by
  zero is not a rational: \<open>jsnum\<close> adds the three non-finite values a JavaScript division
  can produce. Rounding of IEEE doubles is not modelled: integers and halves, which are all
  the numbers the length of a table depends on, are exact in both. Two results can differ
  from the doubles of the source. The stride of the policy \<open>EVEN\<close> is added up exactly, so
  where a sum of rounded strides falls just short of a whole number the source reads the
  entry before the one the model reads; the number of entries is the same. The point count
  of the builder is a sum of exact thirds, which is the source's sum whenever every line has
  a whole number of points.

  Reading an array outside its bounds, or at an index that is not a non-negative integer,
  gives \<open>undefined\<close>: a read returns an \<open>option\<close>, with \<open>None\<close> for \<open>undefined\<close>.
  The tables the two resamplers build can hold \<open>undefined\<close> entries, so they are lists of
  options; the tables they are given are plain lists.
\<close>

datatype jsnum = Fin rat | PosInf | NegInf | NaN

text \<open>\<open>a / b\<close> for finite \<open>a\<close> and \<open>b\<close> (a zero divisor is the positive zero).\<close>

definition js_div :: "rat \<Rightarrow> rat \<Rightarrow> jsnum" where
  "js_div a b =
     (if b = 0 then (if a = 0 then NaN else if 0 < a then PosInf else NegInf)
      else Fin (a / b))"

text \<open>\<open>a + b\<close>.\<close>

fun js_add :: "jsnum \<Rightarrow> jsnum \<Rightarrow> jsnum" where
  "js_add NaN _ = NaN"
| "js_add _ NaN = NaN"
| "js_add (Fin a) (Fin b) = Fin (a + b)"
| "js_add PosInf NegInf = NaN"
| "js_add NegInf PosInf = NaN"
| "js_add PosInf _ = PosInf"
| "js_add _ PosInf = PosInf"
| "js_add NegInf _ = NegInf"
| "js_add _ NegInf = NegInf"

text \<open>\<open>Math.floor(a)\<close>.\<close>

fun js_floor :: "jsnum \<Rightarrow> jsnum" where
  "js_floor (Fin a) = Fin (of_int \<lfloor>a\<rfloor>)"
| "js_floor a = a"

text \<open>\<open>xs[i]\<close> for an integer index that is not negative.\<close>

definition js_get :: "'a list \<Rightarrow> nat \<Rightarrow> 'a option" where
  "js_get xs i = (if i < length xs then Some (xs ! i) else None)"

text \<open>\<open>xs[q]\<close> for a finite number \<open>q\<close>: only an integer index within the bounds names an
  element.\<close>

definition js_get_rat :: "'a list \<Rightarrow> rat \<Rightarrow> 'a option" where
  "js_get_rat xs q =
     (if 0 \<le> q \<and> of_int \<lfloor>q\<rfloor> = q then js_get xs (nat \<lfloor>q\<rfloor>) else None)"

text \<open>\<open>xs[a]\<close> for any number \<open>a\<close>.\<close>

fun js_get_num :: "'a list \<Rightarrow> jsnum \<Rightarrow> 'a option" where
  "js_get_num xs (Fin q) = js_get_rat xs q"
| "js_get_num xs _ = None"

text \<open>\<open>xs.slice(0, e)\<close>: the end is truncated towards zero; a negative end counts from the
  end of the array; the result is clamped to the array.\<close>

definition js_trunc :: "rat \<Rightarrow> int" where
  "js_trunc q = (if q < 0 then \<lceil>q\<rceil> else \<lfloor>q\<rfloor>)"

definition js_slice0 :: "'a list \<Rightarrow> rat \<Rightarrow> 'a list" where
  "js_slice0 xs e =
     (let len = int (length xs);
          relativeEnd = js_trunc e;
          final = (if relativeEnd < 0 then max (len + relativeEnd) 0 else min relativeEnd len)
      in take (nat final) xs)"

subsection \<open>Counted loops\<close>

text \<open>
  \<open>for (let i = i0; i < bound; i++) body\<close>, where \<open>body\<close> updates the variables \<open>s\<close> the
  loop assigns. The bound is a number, the counter a non-negative integer.
\<close>

function for_loop :: "nat \<Rightarrow> rat \<Rightarrow> (nat \<Rightarrow> 's \<Rightarrow> 's) \<Rightarrow> 's \<Rightarrow> 's" where
  "for_loop i bound body s =
     (if of_nat i < bound then for_loop (i + 1) bound body (body i s) else s)"
  by pat_completeness auto
termination
proof (relation "measure (\<lambda>(i, bound, body, s). nat \<lceil>bound\<rceil> - i)")
  show "wf (measure (\<lambda>(i, bound, body, s). nat \<lceil>bound :: rat\<rceil> - i))"
    by simp
next
  fix i :: nat and bound :: rat and body :: "nat \<Rightarrow> 's \<Rightarrow> 's" and s :: 's
  assume "of_nat i < bound"
  then have "int i < \<lceil>bound\<rceil>"
    by (simp add: less_ceiling_iff)
  then show "((i + 1, bound, body, body i s), (i, bound, body, s))
      \<in> measure (\<lambda>(i, bound, body, s). nat \<lceil>bound\<rceil> - i)"
    by simp
qed

text \<open>\<open>for (let i = i0; i < n; i += 2) body\<close>, for an array length \<open>n\<close>.\<close>

function for_loop2 :: "nat \<Rightarrow> nat \<Rightarrow> (nat \<Rightarrow> 's \<Rightarrow> 's) \<Rightarrow> 's \<Rightarrow> 's" where
  "for_loop2 i n body s =
     (if i < n then for_loop2 (i + 2) n body (body i s) else s)"
  by pat_completeness auto
termination
  by (relation "measure (\<lambda>(i, n, body, s). n - i)") auto

text \<open>The two loop equations unfold without end: they are used by name only.\<close>

declare for_loop.simps [simp del]

declare for_loop2.simps [simp del]

section \<open>The distribution policies\<close>

datatype GreasedLineMeshColorDistribution =
    COLOR_DISTRIBUTION_NONE
  | COLOR_DISTRIBUTION_REPEAT
  | COLOR_DISTRIBUTION_EVEN
  | COLOR_DISTRIBUTION_START
  | COLOR_DISTRIBUTION_END
  | COLOR_DISTRIBUTION_START_END

datatype GreasedLineMeshWidthDistribution =
    WIDTH_DISTRIBUTION_NONE
  | WIDTH_DISTRIBUTION_REPEAT
  | WIDTH_DISTRIBUTION_EVEN
  | WIDTH_DISTRIBUTION_START
  | WIDTH_DISTRIBUTION_END
  | WIDTH_DISTRIBUTION_START_END

section \<open>CompleteGreasedLineWidthTable\<close>

text \<open>
  Each branch of the function is a definition of its own, named after its policy; the
  loops of a branch run one after the other on the table \<open>widthsData\<close> being built.
  \<open>push_pair\<close> is the body shared by the copying loops: two pushes, of \<open>widths[i]\<close>
  and \<open>widths[i + 1]\<close>.
\<close>

definition push_pair :: "'a list \<Rightarrow> nat \<Rightarrow> 'a option list \<Rightarrow> 'a option list" where
  "push_pair widths i widthsData = widthsData @ [js_get widths i, js_get widths (i + 1)]"

definition width_START_END :: "rat \<Rightarrow> 'a list \<Rightarrow> 'a option list" where
  "width_START_END missingCount widths =
     (let halfCount = length widths div 2;
          \<comment> \<open>start sector: \<open>i < halfCount - 1\<close>, reading \<open>widths[j++]\<close> twice\<close>
          (j, widthsData1) =
            for_loop 0 (of_nat halfCount - 1)
              (\<lambda>i (j, widthsData). (j + 2, push_pair widths j widthsData)) (0, []);
          \<comment> \<open>middle sector\<close>
          widthL = js_get_rat widths (of_nat halfCount / 2);
          widthU = js_get_rat widths (of_nat halfCount / 2 + 1);
          widthsData2 =
            for_loop 0 missingCount (\<lambda>i widthsData. widthsData @ [widthU, widthL]) widthsData1
          \<comment> \<open>end sector\<close>
      in for_loop2 halfCount (length widths) (push_pair widths) widthsData2)"

definition width_START :: "rat \<Rightarrow> 'a list \<Rightarrow> 'a \<Rightarrow> 'a \<Rightarrow> 'a option list" where
  "width_START missingCount widths defaultWidthUpper defaultWidthLower =
     (let \<comment> \<open>start sector\<close>
          widthsData1 = for_loop2 0 (length widths) (push_pair widths) []
          \<comment> \<open>end sector\<close>
      in for_loop 0 missingCount
           (\<lambda>i widthsData. widthsData @ [Some defaultWidthUpper, Some defaultWidthLower])
           widthsData1)"

definition width_END :: "rat \<Rightarrow> 'a list \<Rightarrow> 'a \<Rightarrow> 'a \<Rightarrow> 'a option list" where
  "width_END missingCount widths defaultWidthUpper defaultWidthLower =
     (let \<comment> \<open>start sector\<close>
          widthsData1 =
            for_loop 0 missingCount
              (\<lambda>i widthsData. widthsData @ [Some defaultWidthUpper, Some defaultWidthLower]) []
          \<comment> \<open>end sector\<close>
      in for_loop2 0 (length widths) (push_pair widths) widthsData1)"

definition width_REPEAT :: "rat \<Rightarrow> 'a list \<Rightarrow> 'a option list" where
  "width_REPEAT pointCount widths =
     snd (for_loop 0 pointCount
            (\<lambda>x (i, widthsData).
               (if i + 2 = length widths then 0 else i + 2, push_pair widths i widthsData))
            (0, []))"

definition width_EVEN :: "rat \<Rightarrow> 'a list \<Rightarrow> 'a option list" where
  "width_EVEN pointCount widths =
     (let widthsectorLength = js_div (of_nat (length widths)) ((pointCount - 1) * 2)
      in snd (for_loop 0 pointCount
                (\<lambda>x (j, widthsData).
                   (let i = js_floor j
                    in (js_add j widthsectorLength,
                        widthsData @ [js_get_num widths i, js_get_num widths (js_add i (Fin 1))])))
                (Fin 0, [])))"

definition CompleteGreasedLineWidthTable ::
  "rat \<Rightarrow> 'a list \<Rightarrow> GreasedLineMeshWidthDistribution \<Rightarrow> 'a \<Rightarrow> 'a \<Rightarrow> 'a option list" where
  "CompleteGreasedLineWidthTable pointCount widths widthsDistribution
       defaultWidthUpper defaultWidthLower =
     (let missingCount = pointCount - of_nat (length widths) / 2
      in if missingCount < 0 then map Some (js_slice0 widths (pointCount * 2))
         else if 0 < missingCount then
           (if widthsDistribution = WIDTH_DISTRIBUTION_START_END then
              width_START_END missingCount widths
            else if widthsDistribution = WIDTH_DISTRIBUTION_START then
              width_START missingCount widths defaultWidthUpper defaultWidthLower
            else if widthsDistribution = WIDTH_DISTRIBUTION_END then
              width_END missingCount widths defaultWidthUpper defaultWidthLower
            else if widthsDistribution = WIDTH_DISTRIBUTION_REPEAT then
              width_REPEAT pointCount widths
            else if widthsDistribution = WIDTH_DISTRIBUTION_EVEN then
              width_EVEN pointCount widths
            else [])
         else for_loop 0 (of_nat (length widths))
                (\<lambda>i widthsData. widthsData @ [js_get widths i]) [])"

section \<open>CompleteGreasedLineColorTable\<close>

definition color_START_END :: "rat \<Rightarrow> 'c list \<Rightarrow> 'c \<Rightarrow> 'c option list" where
  "color_START_END missingCount colors defaultColor =
     (let halfCount = length colors div 2;
          \<comment> \<open>start sector\<close>
          colorsData1 =
            for_loop 0 (of_nat halfCount) (\<lambda>i colorsData. colorsData @ [js_get colors i]) [];
          \<comment> \<open>middle sector\<close>
          colorsData2 =
            for_loop 0 (missingCount - 1) (\<lambda>i colorsData. colorsData @ [Some defaultColor])
              colorsData1
          \<comment> \<open>end sector\<close>
      in for_loop halfCount (of_nat (length colors))
           (\<lambda>i colorsData. colorsData @ [js_get colors i]) colorsData2)"

definition color_START :: "rat \<Rightarrow> 'c list \<Rightarrow> 'c \<Rightarrow> 'c option list" where
  "color_START missingCount colors defaultColor =
     (let \<comment> \<open>start sector\<close>
          colorsData1 =
            for_loop 0 (of_nat (length colors))
              (\<lambda>i colorsData. colorsData @ [js_get colors i]) []
          \<comment> \<open>end sector\<close>
      in for_loop 0 missingCount (\<lambda>i colorsData. colorsData @ [Some defaultColor])
           colorsData1)"

definition color_END :: "rat \<Rightarrow> 'c list \<Rightarrow> 'c \<Rightarrow> 'c option list" where
  "color_END missingCount colors defaultColor =
     (let \<comment> \<open>start sector\<close>
          colorsData1 =
            for_loop 0 (missingCount - 1) (\<lambda>i colorsData. colorsData @ [Some defaultColor]) []
          \<comment> \<open>end sector\<close>
      in for_loop 0 (of_nat (length colors))
           (\<lambda>i colorsData. colorsData @ [js_get colors i]) colorsData1)"

definition color_REPEAT :: "rat \<Rightarrow> 'c list \<Rightarrow> 'c option list" where
  "color_REPEAT pointCount colors =
     snd (for_loop 0 pointCount
            (\<lambda>x (i, colorsData).
               (if i + 1 = length colors then 0 else i + 1, colorsData @ [js_get colors i]))
            (0, []))"

definition color_EVEN :: "rat \<Rightarrow> 'c list \<Rightarrow> 'c option list" where
  "color_EVEN pointCount colors =
     (let colorSectorLength = js_div (of_nat (length colors)) (pointCount - 1)
      in snd (for_loop 0 (pointCount - 1)
                (\<lambda>x (j, colorsData).
                   (let i = js_floor j
                    in (js_add j colorSectorLength, colorsData @ [js_get_num colors i])))
                (Fin 0, [])))"

definition color_NONE :: "'c list \<Rightarrow> 'c option list" where
  "color_NONE colors =
     for_loop 0 (of_nat (length colors)) (\<lambda>i colorsData. colorsData @ [js_get colors i]) []"

definition CompleteGreasedLineColorTable ::
  "rat \<Rightarrow> 'c list \<Rightarrow> GreasedLineMeshColorDistribution \<Rightarrow> 'c \<Rightarrow> 'c option list" where
  "CompleteGreasedLineColorTable pointCount colors colorDistribution defaultColor =
     (let missingCount = pointCount - of_nat (length colors)
      in if missingCount < 0 then map Some (js_slice0 colors pointCount)
         else if 0 < missingCount then
           (if colorDistribution = COLOR_DISTRIBUTION_START_END then
              color_START_END missingCount colors defaultColor
            else if colorDistribution = COLOR_DISTRIBUTION_START then
              color_START missingCount colors defaultColor
            else if colorDistribution = COLOR_DISTRIBUTION_END then
              color_END missingCount colors defaultColor
            else if colorDistribution = COLOR_DISTRIBUTION_REPEAT then
              color_REPEAT pointCount colors
            else if colorDistribution = COLOR_DISTRIBUTION_EVEN then
              color_EVEN pointCount colors
            else if colorDistribution = COLOR_DISTRIBUTION_NONE then
              color_NONE colors
            else [])
         else for_loop 0 pointCount (\<lambda>i colorsData. colorsData @ [js_get colors i]) [])"

section \<open>CreateGreasedLine\<close>

text \<open>
  The mesh, the plugin material and the two material classes are declared in other files
  of the library; the builder only reads and assigns the members below. Width entries are numbers, colours are left abstract.
\<close>

text \<open>The class of a material object, as the builder's \<open>instanceof\<close> tests see it.\<close>

datatype Material = StandardMaterial | PBRMaterial | OtherMaterial

datatype GreasedLineMeshMaterialType = MATERIAL_TYPE_STANDARD | MATERIAL_TYPE_PBR

text \<open>
  Modelled from the spec: the plugin material (GreasedLinePluginMaterial, not among the
  sources) is the material collaborator that holds the colour table of a line and is
  updated through \<open>setColors(newColorTable, deferred)\<close>. The model keeps the table and
  the list of updates pushed so far.
\<close>

record 'c GreasedLinePluginMaterial =
  colors :: "'c option list option"
  setColorsCalls :: "('c option list \<times> bool) list"

text \<open>
  Modelled from the spec: \<open>setColors\<close> of the plugin material (not among the sources)
  is the collaborator's \<open>updateColors(handle, newColorTable, deferred)\<close>; it replaces the
  colour table, and the model records the call.
\<close>

definition setColors ::
  "'c option list \<Rightarrow> bool \<Rightarrow> 'c GreasedLinePluginMaterial \<Rightarrow> 'c GreasedLinePluginMaterial" where
  "setColors newColors lazy_flag plugin =
     plugin\<lparr>colors := Some newColors,
            setColorsCalls := setColorsCalls plugin @ [(newColors, lazy_flag)]\<rparr>"

text \<open>
  Modelled from the spec: the mesh (GreasedLineMesh, not among the sources) is the shape
  state: its point sequence, its width table, the flag for deferred recomputation, the
  attached material and that material's plugin.
\<close>

record 'c GreasedLineMesh =
  points :: "rat list list"
  widths :: "rat option list option"
  lazy :: bool
  material :: "Material option"
  greasedLineMaterial :: "'c GreasedLinePluginMaterial option"

text \<open>
  Modelled from the spec: \<open>addPoints\<close> of the mesh (not among the sources) appends the
  new points to the existing point sequence.
\<close>

definition addPoints :: "rat list list \<Rightarrow> 'c GreasedLineMesh \<Rightarrow> 'c GreasedLineMesh" where
  "addPoints allPoints mesh = mesh\<lparr>points := points mesh @ allPoints\<rparr>"

text \<open>
  Modelled from the spec: \<open>isLazy\<close> of the mesh (not among the sources) reads the flag
  that marks deferred recomputation.
\<close>

definition isLazy :: "'c GreasedLineMesh \<Rightarrow> bool" where
  "isLazy mesh = lazy mesh"

text \<open>
  Modelled from the spec: the constructor of the mesh (not among the sources) makes a shape
  state that holds the points and the width table it is given and has no material yet;
  \<open>lazy\<close> is off unless the option asks for it.
\<close>

definition new_GreasedLineMesh ::
  "rat list list \<Rightarrow> rat option list \<Rightarrow> bool option \<Rightarrow> 'c GreasedLineMesh" where
  "new_GreasedLineMesh allPoints widthsTable lazyOption =
     \<lparr>points = allPoints, widths = Some widthsTable,
      lazy = (case lazyOption of None \<Rightarrow> False | Some b \<Rightarrow> b),
      material = None, greasedLineMaterial = None\<rparr>"

text \<open>
  The options of the builder that it reads itself. \<open>o_points\<close> is the point table as
  \<open>GreasedLineMesh.ConvertPoints\<close> returns it (one coordinate sequence per line); an
  option the caller left out is \<open>None\<close>.
\<close>

record 'c GreasedLineMeshBuilderOptions =
  o_points :: "rat list list"
  o_widths :: "rat list option"
  o_widthDistribution :: "GreasedLineMeshWidthDistribution option"
  o_instance :: "'c GreasedLineMesh option"
  o_lazy :: "bool option"

record 'c GreasedLineMaterialBuilderOptions =
  m_colors :: "'c list option"
  m_colorDistribution :: "GreasedLineMeshColorDistribution option"
  m_color :: "'c option"
  m_createAndAssignMaterial :: "bool option"
  m_materialType :: "GreasedLineMeshMaterialType option"

text \<open>\<open>a ?? b\<close>.\<close>

definition nullish :: "'a option \<Rightarrow> 'a \<Rightarrow> 'a" where
  "nullish a b = (case a of None \<Rightarrow> b | Some v \<Rightarrow> v)"

text \<open>
  The function returns the mesh: the new one, or the instance it was given, updated (the
  source assigns to the instance in place). \<open>DEFAULT_COLOR\<close> is the constant of the plugin
  material's class. The assignments the source makes to its own arguments
  (\<open>options.widthDistribution\<close>, the members of \<open>materialOptions\<close>) are
  the local values of the same names below.
\<close>

text \<open>
  The local \<open>length\<close>: the number of points of the new batch, summed over its lines
  when \<open>allPoints[0]\<close> is an array, that is, when there is a line at all.
\<close>

definition points_length :: "rat list list \<Rightarrow> rat" where
  "points_length allPoints =
     (if allPoints \<noteq> [] then
        fold (\<lambda>pts len. len + of_nat (length pts) / 3) allPoints 0
      else 0)"

definition CreateGreasedLine ::
  "'c \<Rightarrow> 'c GreasedLineMeshBuilderOptions \<Rightarrow> 'c GreasedLineMaterialBuilderOptions option
     \<Rightarrow> 'c GreasedLineMesh" where
  "CreateGreasedLine DEFAULT_COLOR options materialOptionsArg =
     (let allPoints = o_points options;
          length_sum = points_length allPoints;
          widthDistribution = nullish (o_widthDistribution options) WIDTH_DISTRIBUTION_START;
          materialOptions =
            nullish materialOptionsArg
              \<lparr>m_colors = None, m_colorDistribution = None, m_color = Some DEFAULT_COLOR,
               m_createAndAssignMaterial = None, m_materialType = None\<rparr>;
          createAndAssignMaterial = nullish (m_createAndAssignMaterial materialOptions) True;
          colorDistribution =
            nullish (m_colorDistribution materialOptions) COLOR_DISTRIBUTION_START;
          widthsTable =
            CompleteGreasedLineWidthTable length_sum (nullish (o_widths options) [])
              widthDistribution 1 1;
          colorsTable =
            (case m_colors materialOptions of
               Some cs \<Rightarrow>
                 Some (CompleteGreasedLineColorTable length_sum cs colorDistribution
                         (nullish (m_color materialOptions) DEFAULT_COLOR))
             | None \<Rightarrow> None);
          inst1 =
            (case o_instance options of
               None \<Rightarrow>
                 \<comment> \<open>create new mesh if instance is not defined\<close>
                 (let mesh = new_GreasedLineMesh allPoints widthsTable (o_lazy options)
                  in if createAndAssignMaterial then
                       mesh\<lparr>material :=
                              Some (if m_materialType materialOptions = Some MATERIAL_TYPE_PBR
                                    then PBRMaterial else StandardMaterial),
                            greasedLineMaterial :=
                              Some \<lparr>colors = colorsTable, setColorsCalls = []\<rparr>\<rparr>
                     else mesh)
             | Some mesh \<Rightarrow>
                 \<comment> \<open>update the data on the mesh instance\<close>
                 (let mesh1 =
                        (case widths mesh of
                           Some currentWidths \<Rightarrow>
                             mesh\<lparr>widths :=
                                    Some (fold (\<lambda>w newWidths. newWidths @ [w]) widthsTable
                                            currentWidths)\<rparr>
                         | None \<Rightarrow> mesh\<lparr>widths := Some widthsTable\<rparr>)
                  in addPoints allPoints mesh1))
      in \<comment> \<open>add colors\<close>
         (case (colorsTable, o_instance options) of
            (Some newBatch, Some _) \<Rightarrow>
              (if material inst1 = Some StandardMaterial \<or> material inst1 = Some PBRMaterial
               then
                 (case greasedLineMaterial inst1 of
                    Some plugin \<Rightarrow>
                      (case colors plugin of
                         Some currentColors \<Rightarrow>
                           inst1\<lparr>greasedLineMaterial :=
                                   Some (setColors (currentColors @ newBatch) (isLazy inst1)
                                           plugin)\<rparr>
                       | None \<Rightarrow> inst1)
                  | None \<Rightarrow> inst1)
               else inst1)
          | _ \<Rightarrow> inst1))"

section \<open>Loops as folds\<close>

lemma nat_less_ceiling: "of_nat i < (b::rat) \<longleftrightarrow> i < nat \<lceil>b\<rceil>"
proof -
  have "of_nat i < b \<longleftrightarrow> of_int (int i) < b" by simp
  also have "\<dots> \<longleftrightarrow> int i < \<lceil>b\<rceil>" by (simp only: less_ceiling_iff)
  also have "\<dots> \<longleftrightarrow> i < nat \<lceil>b\<rceil>" by linarith
  finally show ?thesis .
qed

lemma for_loop_fold: "for_loop i b body s = fold body [i ..< nat \<lceil>b\<rceil>] s"
proof (induction i b body s rule: for_loop.induct)
  case (1 i bound body s)
  show ?case
  proof (cases "of_nat i < bound")
    case True
    then have "i < nat \<lceil>bound\<rceil>" by (simp only: nat_less_ceiling)
    then have "[i ..< nat \<lceil>bound\<rceil>] = i # [i + 1 ..< nat \<lceil>bound\<rceil>]"
      by (simp add: upt_conv_Cons)
    with True 1 show ?thesis by (subst for_loop.simps) simp
  next
    case False
    then have "nat \<lceil>bound\<rceil> \<le> i" by (simp only: nat_less_ceiling not_less)
    with False show ?thesis by (subst for_loop.simps) simp
  qed
qed

lemma map_step2:
  "map (\<lambda>k. i + 2 * k) [0 ..< Suc m] = i # map (\<lambda>k. i + 2 + 2 * k) [0 ..< m]"
proof -
  have "[0 ..< Suc m] = 0 # map Suc [0 ..< m]"
    by (simp only: upt_conv_Cons zero_less_Suc map_Suc_upt if_True)
  then show ?thesis by (simp add: comp_def del: upt_Suc)
qed

lemma for_loop2_fold:
  "for_loop2 i n body s = fold body (map (\<lambda>k. i + 2 * k) [0 ..< (n + 1 - i) div 2]) s"
proof (induction i n body s rule: for_loop2.induct)
  case (1 i n body s)
  show ?case
  proof (cases "i < n")
    case True
    then have "(n + 1 - i) div 2 = Suc ((n + 1 - (i + 2)) div 2)" by presburger
    then have "map (\<lambda>k. i + 2 * k) [0 ..< (n + 1 - i) div 2]
        = i # map (\<lambda>k. i + 2 + 2 * k) [0 ..< (n + 1 - (i + 2)) div 2]"
      by (simp only: map_step2)
    with True 1 show ?thesis by (subst for_loop2.simps) simp
  next
    case False
    then have "(n + 1 - i) div 2 = 0" by simp
    with False show ?thesis by (subst for_loop2.simps) simp
  qed
qed

lemma fold_push: "fold (\<lambda>i acc. acc @ f i) xs acc = acc @ concat (map f xs)"
  by (induction xs arbitrary: acc) simp_all

lemma fold_push1: "fold (\<lambda>i acc. acc @ [f i]) xs acc = acc @ map f xs"
  by (induction xs arbitrary: acc) simp_all

lemma fold_snd_length:
  assumes "\<And>i s. length (snd (body i s)) = length (snd s) + k"
  shows "length (snd (fold body xs s)) = length (snd s) + k * length xs"
  using assms by (induction xs arbitrary: s) simp_all

lemma for_loop_push1:
  "for_loop i b (\<lambda>i acc. acc @ [f i]) acc = acc @ map f [i ..< nat \<lceil>b\<rceil>]"
  by (simp only: for_loop_fold fold_push1)

lemma for_loop_push:
  "for_loop i b (\<lambda>i acc. acc @ f i) acc = acc @ concat (map f [i ..< nat \<lceil>b\<rceil>])"
  by (simp only: for_loop_fold fold_push)

lemma for_loop_snd_length:
  assumes "\<And>i s. length (snd (body i s)) = length (snd s) + k"
  shows "length (snd (for_loop i b body s)) = length (snd s) + k * (nat \<lceil>b\<rceil> - i)"
  by (simp only: for_loop_fold fold_snd_length [of body k, OF assms] length_upt)

lemma for_loop2_push_pair_length:
  "length (for_loop2 i n (push_pair ws) acc) = length acc + 2 * ((n + 1 - i) div 2)"
proof -
  have "fold (push_pair ws) xs acc
      = acc @ concat (map (\<lambda>i. [js_get ws i, js_get ws (i + 1)]) xs)" for xs acc
    by (induction xs arbitrary: acc) (simp_all add: push_pair_def)
  then show ?thesis
    by (simp add: for_loop2_fold length_concat comp_def sum_list_triv del: upt_Suc)
qed

lemma for_loop_push1_length:
  "length (for_loop i b (\<lambda>i acc. acc @ [f i]) acc) = length acc + (nat \<lceil>b\<rceil> - i)"
  by (simp add: for_loop_push1)

lemma for_loop_fill_length:
  "length (for_loop 0 b (\<lambda>i acc. acc @ [x, y]) acc) = length acc + 2 * nat \<lceil>b\<rceil>"
  by (simp add: for_loop_push [of 0 b "\<lambda>i. [x, y]"] length_concat comp_def sum_list_triv
        del: upt_Suc)



lemma fold_append_each: "fold (\<lambda>w newWidths. newWidths @ [w]) ws acc = acc @ ws"
  by (induction ws arbitrary: acc) simp_all

section \<open>Array reads and slices\<close>

lemma js_trunc_of_int: "js_trunc (of_int n) = n"
  unfolding js_trunc_def by simp

lemma js_slice0_take:
  "0 \<le> n \<Longrightarrow> n \<le> int (length xs) \<Longrightarrow> js_slice0 xs (of_int n) = take (nat n) xs"
  unfolding js_slice0_def Let_def js_trunc_of_int by (simp add: min_def)

lemma map_js_get: "map (js_get xs) [0 ..< length xs] = map Some xs"
  by (rule nth_equalityI) (simp_all add: js_get_def)



section \<open>The width table\<close>

text \<open>The sign of \<open>missingCount\<close> for a whole number of points.\<close>

lemma missing_neg_iff: "((of_int n :: rat) - of_nat l / 2 < 0) = (2 * n < int l)"
proof -
  have "((of_int n :: rat) - of_nat l / 2 < 0) = ((of_int (2 * n) :: rat) < of_int (int l))"
    by (simp add: field_simps)
  then show ?thesis by (simp only: of_int_less_iff)
qed

lemma missing_pos_iff: "(0 < (of_int n :: rat) - of_nat l / 2) = (int l < 2 * n)"
proof -
  have "(0 < (of_int n :: rat) - of_nat l / 2) = ((of_int (int l) :: rat) < of_int (2 * n))"
    by (simp add: field_simps)
  then show ?thesis by (simp only: of_int_less_iff)
qed

lemma width_same:
  assumes "of_nat (length ws) = 2 * pointCount"
  shows "CompleteGreasedLineWidthTable pointCount ws policy du dl = map Some ws"
proof -
  have "pointCount - of_nat (length ws) / 2 = 0" using assms by simp
  then show ?thesis
    by (simp add: CompleteGreasedLineWidthTable_def for_loop_push1 map_js_get)
qed

lemma width_trunc:
  assumes "0 \<le> n" and "2 * n < int (length ws)"
  shows "CompleteGreasedLineWidthTable (of_int n) ws policy du dl
           = map Some (take (nat (2 * n)) ws)"
proof -
  have "js_slice0 ws (of_int n * 2) = take (nat (2 * n)) ws"
    using js_slice0_take [of "2 * n" ws] assms by (simp add: mult.commute)
  with assms show ?thesis
    by (simp add: CompleteGreasedLineWidthTable_def missing_neg_iff)
qed

lemma width_none:
  assumes "0 < pointCount - of_nat (length ws) / 2"
    and "policy \<notin> {WIDTH_DISTRIBUTION_START_END, WIDTH_DISTRIBUTION_START,
                    WIDTH_DISTRIBUTION_END, WIDTH_DISTRIBUTION_REPEAT, WIDTH_DISTRIBUTION_EVEN}"
  shows "CompleteGreasedLineWidthTable pointCount ws policy du dl = []"
  using assms by (simp add: CompleteGreasedLineWidthTable_def)

text \<open>
  C5. A width table with more than \<open>pointCount\<close> pairs (\<open>missingCount < 0\<close>) is cut to
  its first \<open>2 * pointCount\<close> entries, whatever the policy: no entry is interpolated.
  The point count is a whole number that is not negative.
\<close>

theorem CompleteGreasedLineWidthTable_truncates:
  assumes "0 \<le> n" and "(of_int n :: rat) - of_nat (length ws) / 2 < 0"
  shows "CompleteGreasedLineWidthTable (of_int n) ws policy du dl
           = map Some (take (nat (2 * n)) ws)"
  using assms by (simp only: width_trunc missing_neg_iff)

text \<open>The spec's example: two points, three pairs, any policy.\<close>

theorem CompleteGreasedLineWidthTable_truncates_example:
  "\<forall>policy. CompleteGreasedLineWidthTable 2 [1, 1, 2, 2, 3, 3 :: rat] policy 1 1
     = [Some 1, Some 1, Some 2, Some 2]"
proof
  fix policy
  have "(0::int) \<le> 2" by simp
  moreover have "(of_int 2 :: rat) - of_nat (length [1, 1, 2, 2, 3, 3 :: rat]) / 2 < 0"
    by simp
  ultimately have "CompleteGreasedLineWidthTable (of_int 2) [1, 1, 2, 2, 3, 3 :: rat] policy 1 1
      = map Some (take (nat (2 * 2)) [1, 1, 2, 2, 3, 3])"
    by (rule CompleteGreasedLineWidthTable_truncates)
  then show "CompleteGreasedLineWidthTable 2 [1, 1, 2, 2, 3, 3 :: rat] policy 1 1
      = [Some 1, Some 1, Some 2, Some 2]"
    by simp
qed

text \<open>
  C6. A width table of exactly \<open>2 * pointCount\<close> entries (\<open>missingCount = 0\<close>) comes
  back entry by entry, whatever the policy.
\<close>

theorem CompleteGreasedLineWidthTable_unchanged:
  assumes "of_nat (length ws) = 2 * pointCount"
  shows "CompleteGreasedLineWidthTable pointCount ws policy du dl = map Some ws"
  using assms by (rule width_same)

theorem CompleteGreasedLineWidthTable_unchanged_example:
  "\<forall>policy. CompleteGreasedLineWidthTable 2 [1, 2, 3, 4 :: rat] policy 1 1
     = [Some 1, Some 2, Some 3, Some 4]"
proof
  fix policy
  have "of_nat (length [1, 2, 3, 4 :: rat]) = 2 * (2 :: rat)" by simp
  then have "CompleteGreasedLineWidthTable 2 [1, 2, 3, 4 :: rat] policy 1 1
      = map Some [1, 2, 3, 4]"
    by (rule CompleteGreasedLineWidthTable_unchanged)
  then show "CompleteGreasedLineWidthTable 2 [1, 2, 3, 4 :: rat] policy 1 1
      = [Some 1, Some 2, Some 3, Some 4]"
    by simp
qed

text \<open>
  C10. With fewer pairs than points (\<open>missingCount > 0\<close>) and the policy \<open>NONE\<close>, the
  only policy that is none of the five the function handles, the result is the empty
  table: its length is 0 and not \<open>2 * pointCount\<close>.
\<close>

theorem CompleteGreasedLineWidthTable_NONE_empty:
  assumes "0 < pointCount - of_nat (length ws) / 2"
    and "policy \<notin> {WIDTH_DISTRIBUTION_START_END, WIDTH_DISTRIBUTION_START,
                    WIDTH_DISTRIBUTION_END, WIDTH_DISTRIBUTION_REPEAT, WIDTH_DISTRIBUTION_EVEN}"
  shows "CompleteGreasedLineWidthTable pointCount ws policy du dl = []
         \<and> length (CompleteGreasedLineWidthTable pointCount ws policy du dl) = 0
         \<and> of_nat (length (CompleteGreasedLineWidthTable pointCount ws policy du dl))
             \<noteq> 2 * pointCount"
proof -
  have "0 < pointCount"
  proof -
    have "(0::rat) \<le> of_nat (length ws) / 2" by simp
    with assms(1) show ?thesis by linarith
  qed
  with width_none [OF assms] show ?thesis by simp
qed

theorem CompleteGreasedLineWidthTable_NONE_empty_example:
  "CompleteGreasedLineWidthTable 3 [5, 5 :: rat] WIDTH_DISTRIBUTION_NONE 1 1 = []
   \<and> length (CompleteGreasedLineWidthTable 3 [5, 5 :: rat] WIDTH_DISTRIBUTION_NONE 1 1) = 0
   \<and> of_nat (length (CompleteGreasedLineWidthTable 3 [5, 5 :: rat] WIDTH_DISTRIBUTION_NONE 1 1))
       \<noteq> 2 * (3 :: rat)"
proof -
  have "0 < (3 :: rat) - of_nat (length [5, 5 :: rat]) / 2" by simp
  moreover have "WIDTH_DISTRIBUTION_NONE \<notin> {WIDTH_DISTRIBUTION_START_END,
      WIDTH_DISTRIBUTION_START, WIDTH_DISTRIBUTION_END, WIDTH_DISTRIBUTION_REPEAT,
      WIDTH_DISTRIBUTION_EVEN}"
    by simp
  ultimately show ?thesis by (rule CompleteGreasedLineWidthTable_NONE_empty)
qed

subsection \<open>The length of the completed width table\<close>

lemma ceiling_missing_even:
  assumes "even l"
  shows "\<lceil>(of_int n :: rat) - of_nat l / 2\<rceil> = n - int (l div 2)"
proof -
  from assms obtain k where l: "l = 2 * k" by (auto elim: evenE)
  have "(of_int n :: rat) - of_nat l / 2 = of_int (n - int k)"
    by (simp add: l)
  then have "\<lceil>(of_int n :: rat) - of_nat l / 2\<rceil> = n - int k"
    by (simp only: ceiling_of_int)
  then show ?thesis by (simp add: l)
qed

lemma fill_count_even:
  assumes "int l < 2 * n" and "even l"
  shows "int (2 * nat (n - int (l div 2))) = 2 * n - int l"
proof -
  from assms(2) obtain k where l: "l = 2 * k" by (auto elim: evenE)
  with assms(1) have "int k < n" by simp
  then show ?thesis by (simp add: l)
qed

lemma width_START_length:
  assumes "int l < 2 * n" and "even l" and "length ws = l"
  shows "int (length (width_START (of_int n - of_nat l / 2) ws du dl)) = 2 * n"
proof -
  have "2 * ((l + 1) div 2) = l" using assms(2) by presburger
  moreover have "int (2 * nat (n - int (l div 2))) = 2 * n - int l"
    using assms(1,2) by (rule fill_count_even)
  ultimately show ?thesis
    unfolding width_START_def Let_def
    by (simp add: for_loop_fill_length for_loop2_push_pair_length ceiling_missing_even assms(2,3))
qed

lemma width_END_length:
  assumes "int l < 2 * n" and "even l" and "length ws = l"
  shows "int (length (width_END (of_int n - of_nat l / 2) ws du dl)) = 2 * n"
proof -
  have "2 * ((l + 1) div 2) = l" using assms(2) by presburger
  moreover have "int (2 * nat (n - int (l div 2))) = 2 * n - int l"
    using assms(1,2) by (rule fill_count_even)
  ultimately show ?thesis
    unfolding width_END_def Let_def
    by (simp add: for_loop_fill_length for_loop2_push_pair_length ceiling_missing_even assms(2,3))
qed

lemma width_REPEAT_length:
  "length (width_REPEAT pointCount ws) = 2 * nat \<lceil>pointCount\<rceil>"
proof -
  have "length (snd ((\<lambda>x (i, widthsData).
          (if i + 2 = length ws then 0 else i + 2, push_pair ws i widthsData)) x s))
        = length (snd s) + 2" for x :: nat and s :: "nat \<times> 'a option list"
    by (cases s) (simp add: push_pair_def)
  then show ?thesis
    unfolding width_REPEAT_def by (simp add: for_loop_snd_length)
qed

lemma width_EVEN_length:
  "length (width_EVEN pointCount ws) = 2 * nat \<lceil>pointCount\<rceil>"
proof -
  have "length (snd ((\<lambda>x (j, widthsData).
          (let i = js_floor j
           in (js_add j stride,
               widthsData @ [js_get_num ws i, js_get_num ws (js_add i (Fin 1))]))) x s))
        = length (snd s) + 2" for x :: nat and s :: "jsnum \<times> 'a option list" and stride
    by (cases s) (simp add: Let_def)
  then show ?thesis
    unfolding width_EVEN_def Let_def by (simp add: for_loop_snd_length)
qed

text \<open>
  C1, as amended. For a whole point count that is not negative, the completed width table
  has exactly \<open>2 * pointCount\<close> entries when the given table is long enough
  (\<open>missingCount \<le> 0\<close>), when the policy is \<open>REPEAT\<close> or \<open>EVEN\<close>, and when the policy
  is \<open>START\<close> or \<open>END\<close> and the given table holds whole pairs. The policies \<open>NONE\<close>
  and \<open>START_END\<close> and tables of odd length are left out: nothing is said about them.
\<close>

theorem CompleteGreasedLineWidthTable_length:
  assumes "0 \<le> n"
    and "2 * n \<le> int (length ws)
         \<or> policy = WIDTH_DISTRIBUTION_REPEAT \<or> policy = WIDTH_DISTRIBUTION_EVEN
         \<or> even (length ws)
            \<and> (policy = WIDTH_DISTRIBUTION_START \<or> policy = WIDTH_DISTRIBUTION_END)"
  shows "int (length (CompleteGreasedLineWidthTable (of_int n) ws policy du dl)) = 2 * n"
proof -
  consider (less) "2 * n < int (length ws)" | (eq) "2 * n = int (length ws)"
    | (more) "int (length ws) < 2 * n" by linarith
  then show ?thesis
  proof cases
    case less
    with assms(1) show ?thesis by (simp add: width_trunc)
  next
    case eq
    then have "(of_nat (length ws) :: rat) = 2 * of_int n"
      by (metis of_int_mult of_int_numeral of_int_of_nat_eq)
    then show ?thesis using eq by (simp add: width_same)
  next
    case more
    then have pos: "0 < (of_int n :: rat) - of_nat (length ws) / 2"
      by (simp only: missing_pos_iff)
    then have neg: "\<not> (of_int n :: rat) - of_nat (length ws) / 2 < 0" by linarith
    from more assms(2) consider
        (a) "policy = WIDTH_DISTRIBUTION_REPEAT" | (b) "policy = WIDTH_DISTRIBUTION_EVEN"
      | (c) "even (length ws)" "policy = WIDTH_DISTRIBUTION_START"
      | (d) "even (length ws)" "policy = WIDTH_DISTRIBUTION_END"
      by linarith
    then show ?thesis
    proof cases
      case a
      with pos neg assms(1) show ?thesis
        by (simp add: CompleteGreasedLineWidthTable_def width_REPEAT_length)
    next
      case b
      with pos neg assms(1) show ?thesis
        by (simp add: CompleteGreasedLineWidthTable_def width_EVEN_length)
    next
      case c
      with pos neg width_START_length [OF more c(1) refl] show ?thesis
        by (simp add: CompleteGreasedLineWidthTable_def)
    next
      case d
      with pos neg width_END_length [OF more d(1) refl] show ?thesis
        by (simp add: CompleteGreasedLineWidthTable_def)
    qed
  qed
qed

text \<open>Three points and one pair under \<open>START\<close>; five points and two pairs under
  \<open>REPEAT\<close>; one point and no pair under \<open>EVEN\<close>.\<close>

theorem CompleteGreasedLineWidthTable_length_example:
  "int (length (CompleteGreasedLineWidthTable 3 [5, 5 :: rat] WIDTH_DISTRIBUTION_START 1 1)) = 6
   \<and> int (length (CompleteGreasedLineWidthTable 5 [5, 6, 7, 8 :: rat]
                     WIDTH_DISTRIBUTION_REPEAT 1 1)) = 10
   \<and> int (length (CompleteGreasedLineWidthTable 1 ([] :: rat list)
                     WIDTH_DISTRIBUTION_EVEN 1 1)) = 2"
proof -
  have "int (length (CompleteGreasedLineWidthTable (of_int 3) [5, 5 :: rat]
          WIDTH_DISTRIBUTION_START 1 1)) = 2 * 3"
    by (rule CompleteGreasedLineWidthTable_length) simp_all
  moreover have "int (length (CompleteGreasedLineWidthTable (of_int 5) [5, 6, 7, 8 :: rat]
          WIDTH_DISTRIBUTION_REPEAT 1 1)) = 2 * 5"
    by (rule CompleteGreasedLineWidthTable_length) simp_all
  moreover have "int (length (CompleteGreasedLineWidthTable (of_int 1) ([] :: rat list)
          WIDTH_DISTRIBUTION_EVEN 1 1)) = 2 * 1"
    by (rule CompleteGreasedLineWidthTable_length) simp_all
  ultimately show ?thesis by simp
qed

text \<open>
  C1 as stated fails: under \<open>NONE\<close> one point and no width give the empty table; under
  \<open>START_END\<close> four points and three pairs give ten entries; under \<open>START\<close> one point
  and a table of odd length give four entries.
\<close>

theorem CompleteGreasedLineWidthTable_length_fails:
  "length (CompleteGreasedLineWidthTable 1 ([] :: rat list) WIDTH_DISTRIBUTION_NONE 1 1) \<noteq> 2 * 1
   \<and> length (CompleteGreasedLineWidthTable 4 [1, 2, 3, 4, 5, 6 :: rat]
               WIDTH_DISTRIBUTION_START_END 1 1) \<noteq> 2 * 4
   \<and> length (CompleteGreasedLineWidthTable 1 [5 :: rat] WIDTH_DISTRIBUTION_START 1 1) \<noteq> 2 * 1"
  by code_simp

subsection \<open>One point under the policy EVEN\<close>



section \<open>The colour table\<close>

lemma color_missing_pos: "int l < n \<Longrightarrow> 0 < (of_int n :: rat) - of_nat l"
  by (metis diff_gt_0_iff_gt of_int_less_iff of_int_of_nat_eq)

lemma ceiling_color_missing: "\<lceil>(of_int n :: rat) - of_nat l\<rceil> = n - int l"
proof -
  have "(of_int n :: rat) - of_nat l = of_int (n - int l)" by simp
  then show ?thesis by (simp only: ceiling_of_int)
qed



subsection \<open>The policies that fill one entry less\<close>

lemma color_END_length:
  assumes "int (length cs) < n"
  shows "int (length (color_END (of_int n - of_nat (length cs)) cs dc)) = n - 1"
  unfolding color_END_def Let_def
  using assms by (simp add: for_loop_push1_length ceiling_color_missing)

lemma color_START_END_length:
  assumes "int (length cs) < n"
  shows "int (length (color_START_END (of_int n - of_nat (length cs)) cs dc)) = n - 1"
  unfolding color_START_END_def Let_def
  using assms by (simp add: for_loop_push1_length ceiling_color_missing)

lemma color_EVEN_length:
  "length (color_EVEN pointCount cs) = nat \<lceil>pointCount - 1\<rceil>"
proof -
  have "length (snd ((\<lambda>x (j, colorsData).
          (let i = js_floor j
           in (js_add j stride, colorsData @ [js_get_num cs i]))) x s))
        = length (snd s) + 1" for x :: nat and s :: "jsnum \<times> 'a option list" and stride
    by (cases s) (simp add: Let_def)
  then show ?thesis
    unfolding color_EVEN_def Let_def by (simp add: for_loop_snd_length)
qed

text \<open>
  C2. The claim asks for exactly \<open>pointCount\<close> colours under every policy but \<open>NONE\<close>.
  With fewer colours than points the policies \<open>END\<close>, \<open>START_END\<close> and \<open>EVEN\<close>
  return \<open>pointCount - 1\<close> entries: \<open>END\<close> and \<open>START_END\<close> push
  \<open>missingCount - 1\<close> default colours, \<open>EVEN\<close> runs its loop \<open>pointCount - 1\<close> times.
\<close>

theorem CompleteGreasedLineColorTable_one_short:
  assumes "int (length cs) < n"
    and "policy \<in> {COLOR_DISTRIBUTION_END, COLOR_DISTRIBUTION_START_END, COLOR_DISTRIBUTION_EVEN}"
  shows "int (length (CompleteGreasedLineColorTable (of_int n) cs policy dc)) = n - 1"
proof -
  from assms(1) have pos: "0 < (of_int n :: rat) - of_nat (length cs)"
    by (rule color_missing_pos)
  then have neg: "\<not> (of_int n :: rat) - of_nat (length cs) < 0" by linarith
  from assms(1) have n: "1 \<le> n" by linarith
  from n have even_len: "int (length (color_EVEN (of_int n) cs)) = n - 1"
    by (simp add: color_EVEN_length)
  from assms(2) consider "policy = COLOR_DISTRIBUTION_END"
    | "policy = COLOR_DISTRIBUTION_START_END" | "policy = COLOR_DISTRIBUTION_EVEN" by auto
  then show ?thesis
  proof cases
    case 1
    with pos neg color_END_length [OF assms(1)] show ?thesis
      by (simp add: CompleteGreasedLineColorTable_def)
  next
    case 2
    with pos neg color_START_END_length [OF assms(1)] show ?thesis
      by (simp add: CompleteGreasedLineColorTable_def)
  next
    case 3
    with pos neg even_len show ?thesis
      by (simp add: CompleteGreasedLineColorTable_def)
  qed
qed

text \<open>Three points and one colour: two entries under each of the three policies.\<close>

theorem CompleteGreasedLineColorTable_one_short_example:
  "int (length (CompleteGreasedLineColorTable 3 [''c0''] COLOR_DISTRIBUTION_END ''d'')) = 2
   \<and> int (length (CompleteGreasedLineColorTable 3 [''c0''] COLOR_DISTRIBUTION_START_END ''d'')) = 2
   \<and> int (length (CompleteGreasedLineColorTable 3 [''c0''] COLOR_DISTRIBUTION_EVEN ''d'')) = 2"
proof -
  have short: "int (length [''c0'']) < 3" by simp
  have "int (length (CompleteGreasedLineColorTable (of_int 3) [''c0'']
          COLOR_DISTRIBUTION_END ''d'')) = 3 - 1"
    using short by (rule CompleteGreasedLineColorTable_one_short) simp
  moreover have "int (length (CompleteGreasedLineColorTable (of_int 3) [''c0'']
          COLOR_DISTRIBUTION_START_END ''d'')) = 3 - 1"
    using short by (rule CompleteGreasedLineColorTable_one_short) simp
  moreover have "int (length (CompleteGreasedLineColorTable (of_int 3) [''c0'']
          COLOR_DISTRIBUTION_EVEN ''d'')) = 3 - 1"
    using short by (rule CompleteGreasedLineColorTable_one_short) simp
  ultimately show ?thesis by simp
qed

lemma color_END_table:
  assumes "int (length cs) < n"
  shows "CompleteGreasedLineColorTable (of_int n) cs COLOR_DISTRIBUTION_END dc
           = replicate (nat (n - int (length cs) - 1)) (Some dc) @ map Some cs"
proof -
  from assms have pos: "0 < (of_int n :: rat) - of_nat (length cs)"
    by (rule color_missing_pos)
  then have "CompleteGreasedLineColorTable (of_int n) cs COLOR_DISTRIBUTION_END dc
      = color_END (of_int n - of_nat (length cs)) cs dc"
    by (simp add: CompleteGreasedLineColorTable_def)
  also have "\<dots> = replicate (nat (n - int (length cs) - 1)) (Some dc) @ map Some cs"
    unfolding color_END_def Let_def
    by (simp add: for_loop_push1 ceiling_color_missing map_js_get map_replicate_const
          del: upt_Suc)
  finally show ?thesis .
qed

text \<open>
  C3. The claim asks for \<open>missingCount\<close> default colours in front of the given ones
  under \<open>END\<close>. The function pushes \<open>missingCount - 1\<close> of them: for three points and
  the one colour \<open>c0\<close> it returns the default colour once, then \<open>c0\<close>.
\<close>

theorem CompleteGreasedLineColorTable_END_example:
  "CompleteGreasedLineColorTable 3 [''c0''] COLOR_DISTRIBUTION_END ''d''
     = [Some ''d'', Some ''c0'']
   \<and> CompleteGreasedLineColorTable 3 [''c0''] COLOR_DISTRIBUTION_END ''d''
       \<noteq> [Some ''d'', Some ''d'', Some ''c0'']"
proof -
  have "int (length [''c0'']) < 3" by simp
  then have "CompleteGreasedLineColorTable (of_int 3) [''c0''] COLOR_DISTRIBUTION_END ''d''
      = replicate (nat (3 - int (length [''c0'']) - 1)) (Some ''d'') @ map Some [''c0'']"
    by (rule color_END_table)
  then show ?thesis by simp
qed

subsection \<open>One point under the policy EVEN\<close>





subsection \<open>The policy REPEAT\<close>

lemma color_REPEAT_fold:
  assumes "cs \<noteq> []"
  shows "fold (\<lambda>x (i, colorsData).
           (if i + 1 = length cs then 0 else i + 1, colorsData @ [js_get cs i]))
           [0 ..< k] (0, [])
         = (k mod length cs, map (\<lambda>x. Some (cs ! (x mod length cs))) [0 ..< k])"
proof (induction k)
  case 0
  show ?case by simp
next
  case (Suc k)
  from assms have "k mod length cs < length cs" by simp
  then show ?case using Suc
    by (simp add: mod_Suc js_get_def)
qed

lemma color_REPEAT_cyclic:
  assumes "cs \<noteq> []" and "int (length cs) < n"
  shows "CompleteGreasedLineColorTable (of_int n) cs COLOR_DISTRIBUTION_REPEAT dc
           = map (\<lambda>x. Some (cs ! (x mod length cs))) [0 ..< nat n]"
proof -
  have "0 < (of_int n :: rat) - of_nat (length cs)"
    using assms(2) by (rule color_missing_pos)
  then have "CompleteGreasedLineColorTable (of_int n) cs COLOR_DISTRIBUTION_REPEAT dc
      = color_REPEAT (of_int n) cs"
    by (simp add: CompleteGreasedLineColorTable_def)
  also have "\<dots> = map (\<lambda>x. Some (cs ! (x mod length cs))) [0 ..< nat n]"
    unfolding color_REPEAT_def for_loop_fold
    by (simp only: ceiling_of_int color_REPEAT_fold [OF assms(1)] snd_conv)
  finally show ?thesis .
qed

text \<open>
  C7. With fewer colours than points and at least one colour, \<open>REPEAT\<close> fills the
  \<open>pointCount\<close> slots with the given colours in order, starting again at the first after
  the last: slot \<open>x\<close> holds the colour at index \<open>x mod colors.length\<close>.
\<close>

theorem CompleteGreasedLineColorTable_REPEAT:
  assumes "cs \<noteq> []" and "0 < (of_int n :: rat) - of_nat (length cs)"
  shows "CompleteGreasedLineColorTable (of_int n) cs COLOR_DISTRIBUTION_REPEAT dc
           = map (\<lambda>x. Some (cs ! (x mod length cs))) [0 ..< nat n]
         \<and> int (length (CompleteGreasedLineColorTable (of_int n) cs
                           COLOR_DISTRIBUTION_REPEAT dc)) = n"
proof -
  from assms(2) have "(of_int (int (length cs)) :: rat) < of_int n" by simp
  then have short: "int (length cs) < n" by (simp only: of_int_less_iff)
  then have "0 \<le> n" by linarith
  with color_REPEAT_cyclic [OF assms(1) short] show ?thesis by simp
qed

text \<open>The spec's example: five points, two colours.\<close>

theorem CompleteGreasedLineColorTable_REPEAT_example:
  "\<forall>c0 c1 d :: string.
     CompleteGreasedLineColorTable 5 [c0, c1] COLOR_DISTRIBUTION_REPEAT d
       = [Some c0, Some c1, Some c0, Some c1, Some c0]"
proof (intro allI)
  fix c0 c1 d :: string
  have "[c0, c1] \<noteq> []" by simp
  moreover have "0 < (of_int 5 :: rat) - of_nat (length [c0, c1])" by simp
  ultimately have "CompleteGreasedLineColorTable (of_int 5) [c0, c1] COLOR_DISTRIBUTION_REPEAT d
           = map (\<lambda>x. Some ([c0, c1] ! (x mod length [c0, c1]))) [0 ..< nat 5]"
    using CompleteGreasedLineColorTable_REPEAT [of "[c0, c1]" 5 d] by simp
  moreover have "map (\<lambda>x. Some ([c0, c1] ! (x mod length [c0, c1]))) [0 ..< nat 5]
      = [Some c0, Some c1, Some c0, Some c1, Some c0]"
    by code_simp
  ultimately show "CompleteGreasedLineColorTable 5 [c0, c1] COLOR_DISTRIBUTION_REPEAT d
      = [Some c0, Some c1, Some c0, Some c1, Some c0]"
    by simp
qed

section \<open>Extending an existing line\<close>

text \<open>
  C8. When an instance is given and it has a width table, the width table of the result is
  that table followed by the widths completed for the new points alone: the completion is
  called with the point count of the new batch and the new widths, and its result is
  appended entry by entry.
\<close>

theorem CreateGreasedLine_extend_widths:
  assumes "o_instance options = Some mesh" and "widths mesh = Some currentWidths"
  shows "widths (CreateGreasedLine DEFAULT_COLOR options materialOptions)
           = Some (currentWidths
                   @ CompleteGreasedLineWidthTable (points_length (o_points options))
                       (nullish (o_widths options) [])
                       (nullish (o_widthDistribution options) WIDTH_DISTRIBUTION_START) 1 1)"
  using assms unfolding CreateGreasedLine_def Let_def
  by (simp add: fold_append_each addPoints_def split: option.split)

text \<open>The spec's example: widths \<open>[1, 1, 2, 2]\<close> of two points, extended by one point
  with the widths \<open>[3, 3]\<close>.\<close>

theorem CreateGreasedLine_extend_widths_example:
  "widths (CreateGreasedLine ''white''
     \<lparr>o_points = [[2, 2, 2]], o_widths = Some [3, 3], o_widthDistribution = None,
      o_instance = Some \<lparr>points = [[0, 0, 0, 1, 1, 1]],
                          widths = Some [Some 1, Some 1, Some 2, Some 2], lazy = False,
                          material = None, greasedLineMaterial = None\<rparr>,
      o_lazy = None\<rparr> None)
   = Some [Some 1, Some 1, Some 2, Some 2, Some 3, Some 3]"
proof -
  have "CompleteGreasedLineWidthTable (points_length [[2, 2, 2]]) (nullish (Some [3, 3]) [])
          (nullish None WIDTH_DISTRIBUTION_START) 1 1 = [Some (3 :: rat), Some 3]"
    by code_simp
  then show ?thesis
    using CreateGreasedLine_extend_widths [of
        "\<lparr>o_points = [[2, 2, 2]], o_widths = Some [3, 3], o_widthDistribution = None,
          o_instance = Some \<lparr>points = [[0, 0, 0, 1, 1, 1]],
                              widths = Some [Some 1, Some 1, Some 2, Some 2], lazy = False,
                              material = None, greasedLineMaterial = None\<rparr>,
          o_lazy = None\<rparr>"
        "\<lparr>points = [[0, 0, 0, 1, 1, 1]],
          widths = Some [Some 1, Some 1, Some 2, Some 2], lazy = False,
          material = None, greasedLineMaterial = None\<rparr>"
        "[Some 1, Some 1, Some 2, Some 2]" "''white''" None]
    by simp
qed

text \<open>
  C9. When an instance is given, colours are given for the new points, and the material of
  the instance is absent or neither a StandardMaterial nor a PBRMaterial, the plugin
  material of the result is the one the instance had: its colour table is unchanged and no
  \<open>setColors\<close> call is added.
\<close>

theorem CreateGreasedLine_extend_colors_dropped:
  assumes "o_instance options = Some mesh"
    and "materialOptions = Some mo" and "m_colors mo = Some newColors"
    and "material mesh = None \<or> material mesh = Some OtherMaterial"
  shows "greasedLineMaterial (CreateGreasedLine DEFAULT_COLOR options materialOptions)
           = greasedLineMaterial mesh"
  using assms unfolding CreateGreasedLine_def Let_def
  by (auto simp add: addPoints_def split: option.split)

theorem CreateGreasedLine_extend_colors_dropped_example:
  "greasedLineMaterial (CreateGreasedLine ''white''
     \<lparr>o_points = [[2, 2, 2]], o_widths = None, o_widthDistribution = None,
      o_instance = Some \<lparr>points = [[0, 0, 0, 1, 1, 1]], widths = None, lazy = False,
                          material = Some OtherMaterial,
                          greasedLineMaterial =
                            Some \<lparr>colors = Some [Some ''red'', Some ''red''],
                                  setColorsCalls = []\<rparr>\<rparr>,
      o_lazy = None\<rparr>
     (Some \<lparr>m_colors = Some [''blue''], m_colorDistribution = None, m_color = None,
            m_createAndAssignMaterial = None, m_materialType = None\<rparr>))
   = Some \<lparr>colors = Some [Some ''red'', Some ''red''], setColorsCalls = []\<rparr>"
  using CreateGreasedLine_extend_colors_dropped [of
      "\<lparr>o_points = [[2, 2, 2]], o_widths = None, o_widthDistribution = None,
        o_instance = Some \<lparr>points = [[0, 0, 0, 1, 1, 1]], widths = None, lazy = False,
                            material = Some OtherMaterial,
                            greasedLineMaterial =
                              Some \<lparr>colors = Some [Some ''red'', Some ''red''],
                                    setColorsCalls = []\<rparr>\<rparr>,
        o_lazy = None\<rparr>"
      "\<lparr>points = [[0, 0, 0, 1, 1, 1]], widths = None, lazy = False,
        material = Some OtherMaterial,
        greasedLineMaterial =
          Some \<lparr>colors = Some [Some ''red'', Some ''red''], setColorsCalls = []\<rparr>\<rparr>"
      "Some \<lparr>m_colors = Some [''blue''], m_colorDistribution = None, m_color = None,
             m_createAndAssignMaterial = None, m_materialType = None\<rparr>"
      "\<lparr>m_colors = Some [''blue''], m_colorDistribution = None, m_color = None,
        m_createAndAssignMaterial = None, m_materialType = None\<rparr>"
      "[''blue'']" "''white''"]
  by simp

end
